theory Spec2Isabelle
  imports Complex_Main "HOL-Library.Multiset"
begin

section \<open>Python values\<close>

text \<open>
  The dashboard reads JSON documents and moves their values around untyped.  A decoded JSON
  value is one of Python's \<open>None\<close>, \<open>bool\<close>, \<open>int\<close>, \<open>float\<close>, \<open>str\<close>, \<open>list\<close>
  or \<open>dict\<close> (with string keys).  A float is a rational (the exact value of the double), an
  infinity or the not-a-number value; Python's \<open>json\<close> module produces the last three for the
  literals \<open>Infinity\<close>, \<open>-Infinity\<close>, \<open>NaN\<close> and an infinity for a literal such as
  \<open>1e999\<close>.  A string is the list of its UTF-8 bytes.
\<close>

datatype pyfloat = Fin rat | PosInf | NegInf | NaN

datatype pyval =
    PNone
  | PBool bool
  | PInt int
  | PFloat pyfloat
  | PStr string
  | PList "pyval list"
  | PDict "(string \<times> pyval) list"

datatype error = AttributeError | TypeError

text \<open>Truth value testing, as \<open>not x\<close>, \<open>x or y\<close> and \<open>if x\<close> apply it.\<close>

fun truthy :: "pyval \<Rightarrow> bool" where
  "truthy PNone = False"
| "truthy (PBool b) = b"
| "truthy (PInt n) = (n \<noteq> 0)"
| "truthy (PFloat f) = (f \<noteq> Fin 0)"
| "truthy (PStr s) = (s \<noteq> [])"
| "truthy (PList xs) = (xs \<noteq> [])"
| "truthy (PDict kvs) = (kvs \<noteq> [])"

text \<open>\<open>a or b\<close>: the first operand when it is truthy, the second otherwise.\<close>

definition py_or :: "pyval \<Rightarrow> pyval \<Rightarrow> pyval" where
  "py_or a b = (if truthy a then a else b)"


section \<open>Normalising records: \<open>to_df\<close>\<close>

text \<open>
  One row of the data frame, with the eleven columns \<open>to_df\<close> creates.  \<open>scan\<close> always holds
  the scan tag, a string; every other cell holds whatever Python value the row was given.
\<close>

record row =
  scan :: string
  symbol :: pyval
  score :: pyval
  type :: pyval
  price :: pyval
  pct :: pyval
  vol :: pyval
  dir :: pyval
  vwap :: pyval
  pos :: pyval
  momo :: pyval



section \<open>Floating point\<close>

text \<open>
  A finite double is modelled by its exact rational value.  \<open>to_double\<close> rounds a rational to
  the nearest double, ties to even: 53 significant bits, binary exponents from \<open>-1021\<close>
  (below that the spacing stays at \<open>2^-1074\<close>, the subnormal range), and overflow to an
  infinity from \<open>2^1024\<close> on.
\<close>

text \<open>The number of binary digits of a positive integer.\<close>

function bitlen :: "int \<Rightarrow> int" where
  "bitlen n = (if n \<le> 0 then 0 else 1 + bitlen (n div 2))"
  by pat_completeness auto
termination
  by (relation "measure nat") auto

declare bitlen.simps [simp del]

definition pow2 :: "int \<Rightarrow> rat" where
  "pow2 e = (if 0 \<le> e then 2 ^ nat e else 1 / 2 ^ nat (- e))"

definition round_half_even :: "rat \<Rightarrow> int" where
  "round_half_even q =
     (let f = \<lfloor>q\<rfloor>; d = q - of_int f
      in if d < 1 / 2 then f else if 1 / 2 < d then f + 1 else if even f then f else f + 1)"

text \<open>For \<open>q > 0\<close>: an exponent \<open>e\<close> with \<open>2^(e-1) \<le> q \<le> 2^e\<close>.\<close>

definition binexp :: "rat \<Rightarrow> int" where
  "binexp q = (if 1 \<le> q then bitlen \<lfloor>q\<rfloor> else 1 - bitlen \<lfloor>1 / q\<rfloor>)"

definition round_pos :: "rat \<Rightarrow> rat" where
  "round_pos q =
     (let e = max (binexp q) (- 1021)
      in of_int (round_half_even (q * pow2 (53 - e))) * pow2 (e - 53))"

definition to_double :: "rat \<Rightarrow> pyfloat" where
  "to_double q =
     (if q = 0 then Fin 0
      else if 0 < q then (let r = round_pos q in if 2 ^ 1024 \<le> r then PosInf else Fin r)
      else (let r = round_pos (- q) in if 2 ^ 1024 \<le> r then NegInf else Fin (- r)))"

text \<open>The order of the floats that are not NaN.\<close>

fun fl_less :: "pyfloat \<Rightarrow> pyfloat \<Rightarrow> bool" where
  "fl_less (Fin a) (Fin b) = (a < b)"
| "fl_less NegInf (Fin b) = True"
| "fl_less NegInf PosInf = True"
| "fl_less (Fin a) PosInf = True"
| "fl_less a b = False"

section \<open>Coercion to numbers: \<open>pd.to_numeric(column, errors="coerce")\<close>\<close>













section \<open>Ranking: \<open>sort_values(by=["score","pct","vol"], ascending=False, na_position="last")\<close>\<close>

text \<open>
  With several sort columns pandas orders the rows lexicographically by the columns, each
  column descending with its nulls after its numbers, and keeps rows that agree on all the
  columns in the order they had.  The model is an insertion sort that does exactly that.
\<close>

fun num_key :: "pyval \<Rightarrow> pyfloat" where
  "num_key (PInt n) = Fin (of_int n)"
| "num_key (PBool b) = Fin (if b then 1 else 0)"
| "num_key (PFloat f) = f"
| "num_key v = NaN"

text \<open>\<open>key_before a b\<close>: in one column, \<open>a\<close> ranks strictly before \<open>b\<close>.\<close>

definition key_before :: "pyfloat \<Rightarrow> pyfloat \<Rightarrow> bool" where
  "key_before a b = (a \<noteq> NaN \<and> (b = NaN \<or> fl_less b a))"

definition sort_key :: "row \<Rightarrow> pyfloat \<times> pyfloat \<times> pyfloat" where
  "sort_key r = (num_key (score r), num_key (pct r), num_key (vol r))"

fun keys_before :: "pyfloat \<times> pyfloat \<times> pyfloat \<Rightarrow> pyfloat \<times> pyfloat \<times> pyfloat \<Rightarrow> bool" where
  "keys_before (s1, p1, v1) (s2, p2, v2) =
     (key_before s1 s2 \<or> (s1 = s2 \<and> (key_before p1 p2 \<or> (p1 = p2 \<and> key_before v1 v2))))"

definition row_before :: "row \<Rightarrow> row \<Rightarrow> bool" where
  "row_before a b = keys_before (sort_key a) (sort_key b)"

fun insert_row :: "row \<Rightarrow> row list \<Rightarrow> row list" where
  "insert_row x [] = [x]"
| "insert_row x (y # ys) = (if row_before y x then y # insert_row x ys else x # y # ys)"










section \<open>Aggregation: \<open>df_all\<close>\<close>

text \<open>
  \<open>pd.concat(frames, ignore_index=True)\<close> stacks the frames in the order given, and
  \<open>head(n)\<close> keeps the first \<open>n\<close> rows.  \<open>max_rows\<close> is the value of a slider between 50
  and 300, a natural number.
\<close>

definition pd_concat :: "row list list \<Rightarrow> row list" where
  "pd_concat frames = foldr (\<lambda>frame acc. frame @ acc) frames []"

definition head :: "nat \<Rightarrow> row list \<Rightarrow> row list" where
  "head n df = take n df"

definition aggregate :: "row list list \<Rightarrow> nat \<Rightarrow> row list" where
  "aggregate frames max_rows = head max_rows (pd_concat frames)"

definition df_all :: "row list \<Rightarrow> row list \<Rightarrow> row list \<Rightarrow> row list \<Rightarrow> nat \<Rightarrow> row list" where
  "df_all df_am df_open df_lunch df_power max_rows =
     aggregate [df_am, df_open, df_lunch, df_power] max_rows"

section \<open>Printing values\<close>

text \<open>Decimal digits of a non-negative integer, and \<open>str\<close> of an int.\<close>

definition digit_char :: "int \<Rightarrow> char" where
  "digit_char d = ''0123456789'' ! nat d"

function dec :: "int \<Rightarrow> string" where
  "dec n = (if n < 10 then [digit_char n] else dec (n div 10) @ [digit_char (n mod 10)])"
  by pat_completeness auto
termination
  by (relation "measure nat") auto

declare dec.simps [simp del]

definition show_int :: "int \<Rightarrow> string" where
  "show_int n = (if n < 0 then ''-'' @ dec (- n) else dec n)"

text \<open>
  \<open>repr\<close> of a float: the shortest decimal digit string that rounds back to the same double,
  printed in positional notation when the decimal point lies within \<open>-4 < decpt \<le> 16\<close>
  and with an exponent otherwise.
\<close>

function declen :: "int \<Rightarrow> int" where
  "declen n = (if n \<le> 0 then 0 else 1 + declen (n div 10))"
  by pat_completeness auto
termination
  by (relation "measure nat") auto

declare declen.simps [simp del]

definition pow10 :: "int \<Rightarrow> rat" where
  "pow10 e = (if 0 \<le> e then 10 ^ nat e else 1 / 10 ^ nat (- e))"

definition decexp :: "rat \<Rightarrow> int" where
  "decexp q = (if 1 \<le> q then declen \<lfloor>q\<rfloor> else 1 - declen \<lfloor>1 / q\<rfloor>)"

text \<open>\<open>q\<close> rounded to \<open>n\<close> significant digits: the pair \<open>(m, e)\<close> stands for \<open>m * 10^e\<close>.\<close>

definition round_sig :: "int \<Rightarrow> rat \<Rightarrow> int \<times> int" where
  "round_sig n q = (let k = decexp q in (round_half_even (q * pow10 (n - k)), k - n))"

fun shortest :: "nat \<Rightarrow> int \<Rightarrow> rat \<Rightarrow> int \<times> int" where
  "shortest 0 n q = round_sig n q"
| "shortest (Suc fuel) n q =
     (let (m, e) = round_sig n q
      in if to_double (of_int m * pow10 e) = Fin q then (m, e) else shortest fuel (n + 1) q)"

definition strip_zeros :: "string \<Rightarrow> string" where
  "strip_zeros s = rev (dropWhile (\<lambda>c. c = CHR ''0'') (rev s))"

definition pad2 :: "string \<Rightarrow> string" where
  "pad2 s = (if length s < 2 then ''0'' @ s else s)"

definition repr_pos :: "rat \<Rightarrow> string" where
  "repr_pos q =
     (let (m, e) = shortest 16 1 q;
          ds = dec m;
          decpt = int (length ds) + e;
          d = strip_zeros ds;
          l = int (length d)
      in if - 4 < decpt \<and> decpt \<le> 16 then
           (if decpt \<le> 0 then ''0.'' @ replicate (nat (- decpt)) (CHR ''0'') @ d
            else if l \<le> decpt then d @ replicate (nat (decpt - l)) (CHR ''0'') @ ''.0''
            else take (nat decpt) d @ ''.'' @ drop (nat decpt) d)
         else
           take 1 d @ (if 1 < l then ''.'' @ drop 1 d else []) @ ''e''
             @ (if decpt - 1 < 0 then ''-'' else ''+'') @ pad2 (dec (abs (decpt - 1))))"

fun float_repr :: "pyfloat \<Rightarrow> string" where
  "float_repr (Fin q) =
     (if q = 0 then ''0.0'' else if q < 0 then ''-'' @ repr_pos (- q) else repr_pos q)"
| "float_repr PosInf = ''inf''"
| "float_repr NegInf = ''-inf''"
| "float_repr NaN = ''nan''"

text \<open>
  \<open>str(v)\<close>, which an f-string field \<open>{v}\<close> prints.  How Python prints a list or a dict is
  not modelled: it is the parameter \<open>repr_obj\<close>.
\<close>

fun py_str :: "(pyval \<Rightarrow> string) \<Rightarrow> pyval \<Rightarrow> string" where
  "py_str repr_obj PNone = ''None''"
| "py_str repr_obj (PBool b) = (if b then ''True'' else ''False'')"
| "py_str repr_obj (PInt n) = show_int n"
| "py_str repr_obj (PFloat f) = float_repr f"
| "py_str repr_obj (PStr s) = s"
| "py_str repr_obj v = repr_obj v"

section \<open>Volume formatting: \<open>human_int\<close>\<close>

text \<open>
  \<open>float(x)\<close>: a bool and an int convert (an int too large for a double raises), a string
  goes through Python's float parser, the parameter \<open>float_of_str\<close>, and \<open>None\<close>, a list
  and a dict raise.
\<close>

datatype exn = Raised

fun py_float :: "(string \<Rightarrow> pyfloat option) \<Rightarrow> pyval \<Rightarrow> exn + pyfloat" where
  "py_float float_of_str (PFloat f) = Inr f"
| "py_float float_of_str (PBool b) = Inr (Fin (if b then 1 else 0))"
| "py_float float_of_str (PInt n) =
     (case to_double (of_int n) of Fin q \<Rightarrow> Inr (Fin q) | _ \<Rightarrow> Inl Raised)"
| "py_float float_of_str (PStr s) =
     (case float_of_str s of Some f \<Rightarrow> Inr f | None \<Rightarrow> Inl Raised)"
| "py_float float_of_str v = Inl Raised"

text \<open>\<open>x / d\<close> for a finite float \<open>x\<close> and a positive constant \<open>d\<close>, correctly rounded.\<close>

definition fdiv :: "rat \<Rightarrow> rat \<Rightarrow> pyfloat" where
  "fdiv q d = to_double (q / d)"

text \<open>The format \<open>.1f\<close>: one digit after the point, the exact value rounded half to even.\<close>

fun fmt_1f :: "pyfloat \<Rightarrow> string" where
  "fmt_1f (Fin r) =
     (let t = round_half_even (abs r * 10)
      in (if r < 0 then ''-'' else []) @ dec (t div 10) @ ''.'' @ dec (t mod 10))"
| "fmt_1f PosInf = ''inf''"
| "fmt_1f NegInf = ''-inf''"
| "fmt_1f NaN = ''nan''"

text \<open>\<open>int(x)\<close> of a finite float truncates towards zero.\<close>

definition trunc :: "rat \<Rightarrow> int" where
  "trunc q = (if 0 \<le> q then \<lfloor>q\<rfloor> else - \<lfloor>- q\<rfloor>)"

text \<open>
  The body of the \<open>try\<close> once \<open>x\<close> is a float: \<open>int\<close> of a NaN or of an infinity raises, and
  the handler then prints the float.
\<close>

fun human_float :: "pyfloat \<Rightarrow> string" where
  "human_float (Fin q) =
     (if 1000000 \<le> q then fmt_1f (fdiv q 1000000) @ ''M''
      else if 1000 \<le> q then fmt_1f (fdiv q 1000) @ ''k''
      else show_int (trunc q))"
| "human_float PosInf = fmt_1f PosInf @ ''M''"
| "human_float NegInf = float_repr NegInf"
| "human_float NaN = float_repr NaN"

definition human_int :: "(string \<Rightarrow> pyfloat option) \<Rightarrow> (pyval \<Rightarrow> string) \<Rightarrow> pyval \<Rightarrow> string" where
  "human_int float_of_str repr_obj x =
     (case py_float float_of_str x of
        Inl e \<Rightarrow> py_str repr_obj x
      | Inr f \<Rightarrow> human_float f)"

section \<open>The Telegram digest\<close>

text \<open>
  The bracketed direction of a digest line: \<open>('['+d+']') if d else ''\<close>.  Concatenating a
  string with a truthy value that is not a string raises \<open>TypeError\<close>.
\<close>

definition bracket :: "pyval \<Rightarrow> error + string" where
  "bracket d =
     (if truthy d
      then (case d of PStr s \<Rightarrow> Inr (''['' @ s @ '']'') | _ \<Rightarrow> Inl TypeError)
      else Inr [])"

text \<open>
  One digest line, the f-string
  \<^verbatim>\<open>f"{sym} ${price} {('['+d+']') if d else ''}  Score:{score}  D%:{pct}  ({scan})"\<close>
  where \<open>D\<close> stands for the Greek capital delta, the two bytes \<open>CE 94\<close> in UTF-8.
\<close>

definition delta :: string where
  "delta = [CHR 0xCE, CHR 0x94]"

definition text_line :: "(pyval \<Rightarrow> string) \<Rightarrow> row \<Rightarrow> error + string" where
  "text_line repr_obj r =
     (let sym = symbol r;
          sc = score r;
          pr = price r;
          sn = scan r;
          d = py_or (dir r) (PStr []);
          pc = pct r
      in case bracket d of
           Inl e \<Rightarrow> Inl e
         | Inr seg \<Rightarrow>
             Inr (py_str repr_obj sym @ '' $'' @ py_str repr_obj pr @ '' '' @ seg
                  @ ''  Score:'' @ py_str repr_obj sc
                  @ ''  '' @ delta @ ''%:'' @ py_str repr_obj pc
                  @ ''  ('' @ sn @ '')''))"

text \<open>The loop over \<open>df_all.head(push_n).iterrows()\<close>; the first line that raises ends it.\<close>

fun text_lines :: "(pyval \<Rightarrow> string) \<Rightarrow> row list \<Rightarrow> error + string list" where
  "text_lines repr_obj [] = Inr []"
| "text_lines repr_obj (r # rs) =
     (case text_line repr_obj r of
        Inl e \<Rightarrow> Inl e
      | Inr l \<Rightarrow>
          (case text_lines repr_obj rs of
             Inl e \<Rightarrow> Inl e
           | Inr ls \<Rightarrow> Inr (l # ls)))"

text \<open>\<open>"\n".join(lines)\<close>.\<close>

fun join_lines :: "string list \<Rightarrow> string" where
  "join_lines [] = []"
| "join_lines [l] = l"
| "join_lines (l # ls) = l @ [CHR 0x0A] @ join_lines ls"

text \<open>The header line; its dash is the em dash, \<open>E2 80 94\<close> in UTF-8.\<close>

definition header :: string where
  "header = ''AIMe BEAST '' @ [CHR 0xE2, CHR 0x80, CHR 0x94] @ '' Top Picks'' @ [CHR 0x0A]"

text \<open>
  The push block of the first tab.  What it does is recorded as the list of requests it
  sends and the list of messages it shows.  The network is the parameter \<open>net\<close>: a request
  is answered by a response (status code and text, the text as a list of code points) or
  fails with an exception, whose text is reported.
\<close>

record request =
  url :: string
  chat_id :: string
  text_msg :: string

datatype response = Response int "string list"

datatype ui = StError string | StWarning string | StSuccess string

definition push_block ::
  "(request \<Rightarrow> string + response) \<Rightarrow> (pyval \<Rightarrow> string) \<Rightarrow> bool \<Rightarrow> string \<Rightarrow> string
     \<Rightarrow> row list \<Rightarrow> nat \<Rightarrow> error + request list \<times> ui list" where
  "push_block net repr_obj pressed token chat df push_n =
     (if \<not> pressed then Inr ([], [])
      else if token = [] \<or> chat = [] then
        Inr ([], [StError ''Missing TELEGRAM_BOT_TOKEN or TELEGRAM_CHAT_ID''])
      else if df = [] then Inr ([], [StWarning ''Nothing to send yet.''])
      else
        (case text_lines repr_obj (head push_n df) of
           Inl e \<Rightarrow> Inl e
         | Inr ls \<Rightarrow>
             (let msg = header @ join_lines ls;
                  req = \<lparr> url = ''https://api.telegram.org/bot'' @ token @ ''/sendMessage'',
                          chat_id = chat, text_msg = msg \<rparr>
              in case net req of
                   Inr (Response code body) \<Rightarrow>
                     (if code = 200
                      then Inr ([req], [StSuccess (''Sent to Telegram '' @ [CHR 0xE2, CHR 0x9C, CHR 0x85])])
                      else Inr ([req], [StError (''Telegram error: '' @ show_int code @ '' ''
                                  @ [CHR 0xE2, CHR 0x80, CHR 0x94] @ '' '' @ concat (take 200 body))]))
                 | Inl e \<Rightarrow> Inr ([req], [StError (''Telegram send failed: '' @ e)]))))"

section \<open>Fetching: \<open>fetch_json\<close>\<close>

text \<open>
  The outside world as \<open>fetch_json\<close> meets it: an HTTP GET either raises or answers with a
  status code and a body whose JSON decoding either raises or gives a value; a path exists
  or not; opening and decoding a file either raises or gives a value.
\<close>

datatype io_error = RequestException | JSONDecodeError | OSError

record world =
  http_get :: "string \<Rightarrow> io_error + int \<times> (io_error + pyval)"
  path_exists :: "string \<Rightarrow> bool"
  load_file :: "string \<Rightarrow> io_error + pyval"

text \<open>\<open>source.lower()\<close> on the ASCII letters; no other character lowers to one of \<open>h t p\<close>.\<close>

definition lower_char :: "char \<Rightarrow> char" where
  "lower_char c =
     (case map_of (zip ''ABCDEFGHIJKLMNOPQRSTUVWXYZ'' ''abcdefghijklmnopqrstuvwxyz'') c of
        Some l \<Rightarrow> l
      | None \<Rightarrow> c)"

definition lower :: "string \<Rightarrow> string" where
  "lower s = map lower_char s"

definition startswith :: "string \<Rightarrow> string \<Rightarrow> bool" where
  "startswith s p = (take (length p) s = p)"

text \<open>The body of the \<open>try\<close>: every exception of the world passes through it.\<close>

definition fetch_body :: "world \<Rightarrow> string \<Rightarrow> io_error + pyval" where
  "fetch_body w source =
     (if startswith (lower source) ''http'' then
        (case http_get w source of
           Inl e \<Rightarrow> Inl e
         | Inr (status_code, json) \<Rightarrow>
             (if status_code \<noteq> 200 then Inr (PList [])
              else case json of Inl e \<Rightarrow> Inl e | Inr v \<Rightarrow> Inr v))
      else if path_exists w source then
        (case load_file w source of Inl e \<Rightarrow> Inl e | Inr v \<Rightarrow> Inr v)
      else Inr (PList []))"

text \<open>\<open>fetch_json\<close>: the guard, the \<open>try\<close>, and \<open>except Exception: return []\<close>.\<close>

definition fetch_json :: "world \<Rightarrow> string \<Rightarrow> io_error + pyval" where
  "fetch_json w source =
     (if source = [] then Inr (PList [])
      else case fetch_body w source of
        Inl e \<Rightarrow> Inr (PList [])
      | Inr v \<Rightarrow> Inr v)"

section \<open>Small stand-ins for running examples\<close>

text \<open>
  The number parsers of pandas and Python and the printer of lists and dicts are
  parameters above.  To run the definitions on examples, these stand-ins read an unsigned
  decimal integer and nothing else, and print every list and dict as \<open>...\<close>.
\<close>

definition digit_value :: "char \<Rightarrow> int" where
  "digit_value c =
     (case map_of (zip ''0123456789'' [0, 1, 2, 3, 4, 5, 6, 7, 8, 9]) c of
        Some d \<Rightarrow> d
      | None \<Rightarrow> 0)"

definition digits_value :: "string \<Rightarrow> int option" where
  "digits_value s =
     (if s \<noteq> [] \<and> list_all (\<lambda>c. c \<in> set ''0123456789'') s
      then Some (foldl (\<lambda>acc c. 10 * acc + digit_value c) 0 s)
      else None)"


definition float_of_digits :: "string \<Rightarrow> pyfloat option" where
  "float_of_digits s = map_option (\<lambda>n. to_double (of_int n)) (digits_value s)"

definition repr_dots :: "pyval \<Rightarrow> string" where
  "repr_dots v = ''...''"

text \<open>
  A world without network and without files, one whose server answers 502 and whose files
  do not decode, and a network that accepts every request.
\<close>

definition offline :: world where
  "offline = \<lparr> http_get = (\<lambda>u. Inl RequestException),
               path_exists = (\<lambda>p. False),
               load_file = (\<lambda>p. Inl OSError) \<rparr>"

definition bad_gateway :: world where
  "bad_gateway = \<lparr> http_get = (\<lambda>u. Inr (502, Inl JSONDecodeError)),
                   path_exists = (\<lambda>p. True),
                   load_file = (\<lambda>p. Inl JSONDecodeError) \<rparr>"

definition net_ok :: "request \<Rightarrow> string + response" where
  "net_ok req = Inr (Response 200 [])"

section \<open>Properties of normalisation\<close>

subsection \<open>Building and coercing the rows\<close>













subsection \<open>The sort is a stable sort by rank\<close>

lemma length_insert_row: "length (insert_row x xs) = Suc (length xs)"
  by (induction xs) auto


















subsection \<open>What \<open>to_df\<close> returns\<close>





subsection \<open>Running \<open>to_df\<close> on an explicit input\<close>


section \<open>The claims about \<open>to_df\<close>\<close>



subsection \<open>Where each cell of a returned row comes from\<close>









subsection \<open>Coerced cells\<close>









section \<open>The claims about aggregation\<close>

lemma pd_concat_concat: "pd_concat frames = concat frames"
  by (induction frames) (simp_all add: pd_concat_def)

text \<open>
  C4.  Aggregation is the concatenation of the collections in the order given, each with its
  rows in their own order and nothing re-sorted, cut to its first \<open>max_rows\<close> rows; its
  length is the smaller of the total number of rows and \<open>max_rows\<close>.  For the four frames
  of the dashboard this is the first \<open>max_rows\<close> rows of the 08:00 rows, then the 10:00,
  13:45 and 15:15 rows.
\<close>

theorem aggregate_concat_truncate:
  "aggregate frames max_rows = take max_rows (concat frames)
   \<and> length (aggregate frames max_rows) = min (sum_list (map length frames)) max_rows
   \<and> df_all df_am df_open df_lunch df_power max_rows =
       take max_rows (df_am @ df_open @ df_lunch @ df_power)"
  by (simp add: aggregate_def df_all_def head_def pd_concat_concat length_concat)

section \<open>The claims about fetching\<close>

text \<open>
  C7.  \<open>fetch_json\<close> never raises: whatever the world does, it returns a value.  An empty
  source gives the empty list at once; for a URL a transport failure, a status other than
  200 and a body that does not decode give the empty list; for a path a missing file and a
  file that cannot be read or decoded give the empty list.
\<close>

theorem fetch_json_never_raises:
  "(\<exists>v. fetch_json w source = Inr v)
   \<and> fetch_json w [] = Inr (PList [])
   \<and> (source \<noteq> [] \<and> startswith (lower source) ''http'' \<and> http_get w source = Inl e \<longrightarrow>
         fetch_json w source = Inr (PList []))
   \<and> (source \<noteq> [] \<and> startswith (lower source) ''http''
         \<and> http_get w source = Inr (code, body) \<and> code \<noteq> 200 \<longrightarrow>
         fetch_json w source = Inr (PList []))
   \<and> (source \<noteq> [] \<and> startswith (lower source) ''http''
         \<and> http_get w source = Inr (200, Inl e) \<longrightarrow>
         fetch_json w source = Inr (PList []))
   \<and> (source \<noteq> [] \<and> \<not> startswith (lower source) ''http'' \<and> \<not> path_exists w source \<longrightarrow>
         fetch_json w source = Inr (PList []))
   \<and> (source \<noteq> [] \<and> \<not> startswith (lower source) ''http'' \<and> path_exists w source
         \<and> load_file w source = Inl e \<longrightarrow>
         fetch_json w source = Inr (PList []))"
proof (intro conjI impI)
  show "\<exists>v. fetch_json w source = Inr v"
    by (cases "fetch_body w source") (simp_all add: fetch_json_def)
qed (simp_all add: fetch_json_def fetch_body_def)

theorem fetch_json_never_raises_witness:
  "''HTTP://bad-host/x'' \<noteq> [] \<and> startswith (lower ''HTTP://bad-host/x'') ''http''
   \<and> http_get offline ''HTTP://bad-host/x'' = Inl RequestException
   \<and> fetch_json offline ''HTTP://bad-host/x'' = Inr (PList [])
   \<and> ''am_runners.json'' \<noteq> [] \<and> \<not> startswith (lower ''am_runners.json'') ''http''
   \<and> path_exists bad_gateway ''am_runners.json''
   \<and> load_file bad_gateway ''am_runners.json'' = Inl JSONDecodeError
   \<and> fetch_json bad_gateway ''am_runners.json'' = Inr (PList [])"
  using fetch_json_never_raises [of offline "''HTTP://bad-host/x''" RequestException]
    fetch_json_never_raises [of bad_gateway "''am_runners.json''" JSONDecodeError]
  by (simp add: offline_def bad_gateway_def startswith_def lower_def lower_char_def)

section \<open>The claims about printing\<close>

subsection \<open>Evaluating the float model\<close>

lemma floor_rat_numeral_div [simp]:
  "\<lfloor>(numeral a / numeral b :: rat)\<rfloor> = numeral a div numeral b"
  using floor_divide_of_int_eq [of "numeral a" "numeral b", where ?'a = rat] by simp

lemma floor_rat_one_div [simp]:
  "\<lfloor>(1 / numeral b :: rat)\<rfloor> = 1 div numeral b"
  using floor_divide_of_int_eq [of 1 "numeral b", where ?'a = rat] by simp

lemma floor_rat_neg_numeral_div [simp]:
  "\<lfloor>(- (numeral a / numeral b) :: rat)\<rfloor> = - numeral a div numeral b"
  using floor_divide_of_int_eq [of "- numeral a" "numeral b", where ?'a = rat] by simp

lemmas float_eval =
  to_double_def round_pos_def binexp_def bitlen.simps pow2_def round_half_even_def Let_def


lemma to_double_1200000: "to_double 1200000 = Fin 1200000"
  by (simp add: float_eval)

lemma to_double_1500: "to_double 1500 = Fin 1500"
  by (simp add: float_eval)

lemma to_double_999: "to_double 999 = Fin 999"
  by (simp add: float_eval)

lemma fmt_1200000: "fmt_1f (fdiv 1200000 1000000) = ''1.2''"
  by (simp add: float_eval fdiv_def dec.simps digit_char_def)

lemma fmt_1500: "fmt_1f (fdiv 1500 1000) = ''1.5''"
  by (simp add: float_eval fdiv_def dec.simps digit_char_def)

lemma fmt_2500000: "fmt_1f (fdiv 2500000 1000000) = ''2.5''"
  by (simp add: float_eval fdiv_def dec.simps digit_char_def)

lemma fmt_1050: "fmt_1f (fdiv 1050 1000) = ''1.1''"
  by (simp add: float_eval fdiv_def dec.simps digit_char_def)

lemma show_trunc_999: "show_int (trunc 999) = ''999''"
  by (simp add: show_int_def trunc_def dec.simps digit_char_def)

lemma show_trunc_neg: "show_int (trunc (- (7 / 2))) = ''-3''"
  by (simp add: show_int_def trunc_def dec.simps digit_char_def)





subsection \<open>Digits\<close>

lemma digit_char_digit: "0 \<le> d \<Longrightarrow> d < 10 \<Longrightarrow> digit_char d \<in> set ''0123456789''"
proof -
  assume "0 \<le> d" and "d < 10"
  then have "nat d < length ''0123456789''" by simp
  then show ?thesis unfolding digit_char_def by (rule nth_mem)
qed

lemma set_dec: "0 \<le> n \<Longrightarrow> set (dec n) \<subseteq> set ''0123456789''"
proof (induction n rule: dec.induct)
  case (1 n)
  define D where "D = set ''0123456789''"
  show ?case
  proof (cases "n < 10")
    case True
    have "digit_char n \<in> D"
      unfolding D_def by (rule digit_char_digit) (use True "1.prems" in simp_all)
    moreover have "dec n = [digit_char n]"
      using True by (subst dec.simps) simp
    ultimately show ?thesis unfolding D_def [symmetric] by simp
  next
    case False
    have "0 \<le> n div 10" using "1.prems" by simp
    with False have ih: "set (dec (n div 10)) \<subseteq> D"
      unfolding D_def by (rule "1.IH")
    have d: "digit_char (n mod 10) \<in> D"
      unfolding D_def by (rule digit_char_digit) simp_all
    have "dec n = dec (n div 10) @ [digit_char (n mod 10)]"
      using False by (subst dec.simps) simp
    with ih d show ?thesis unfolding D_def [symmetric] by simp
  qed
qed

lemma set_show_int: "set (show_int n) \<subseteq> set ''-0123456789''"
proof -
  have sub: "set ''0123456789'' \<subseteq> set ''-0123456789''" by auto
  show ?thesis
  proof (cases "n < 0")
    case True
    then have "set (dec (- n)) \<subseteq> set ''0123456789''" by (intro set_dec) simp
    then have "set (dec (- n)) \<subseteq> set ''-0123456789''" using sub by (rule subset_trans)
    moreover have "show_int n = CHR ''-'' # dec (- n)" using True by (simp add: show_int_def)
    ultimately show ?thesis by simp
  next
    case False
    then have "set (dec n) \<subseteq> set ''0123456789''" by (intro set_dec) simp
    then have "set (dec n) \<subseteq> set ''-0123456789''" using sub by (rule subset_trans)
    moreover have "show_int n = dec n" using False by (simp add: show_int_def)
    ultimately show ?thesis by simp
  qed
qed

text \<open>
  C9.  \<open>human_int\<close> prints 1200000 as \<open>1.2M\<close>, 1500 as \<open>1.5k\<close> and 999 as \<open>999\<close>.  In general
  a finite volume of at least 1,000,000 gets the suffix \<open>M\<close>, one of at least 1,000 and below
  1,000,000 gets the suffix \<open>k\<close>, and one below 1,000 is printed as its integer part, in
  digits and a sign only.
\<close>

theorem human_int_suffixes:
  "human_int float_of_str repr_obj (PInt 1200000) = ''1.2M''
   \<and> human_int float_of_str repr_obj (PInt 1500) = ''1.5k''
   \<and> human_int float_of_str repr_obj (PInt 999) = ''999''
   \<and> (1000000 \<le> q \<longrightarrow>
         human_int float_of_str repr_obj (PFloat (Fin q)) = fmt_1f (fdiv q 1000000) @ ''M'')
   \<and> (1000 \<le> q \<and> q < 1000000 \<longrightarrow>
         human_int float_of_str repr_obj (PFloat (Fin q)) = fmt_1f (fdiv q 1000) @ ''k'')
   \<and> (q < 1000 \<longrightarrow>
         human_int float_of_str repr_obj (PFloat (Fin q)) = show_int (trunc q)
         \<and> set (human_int float_of_str repr_obj (PFloat (Fin q))) \<subseteq> set ''-0123456789'')"
proof (intro conjI impI)
  show "human_int float_of_str repr_obj (PInt 1200000) = ''1.2M''"
    by (simp add: human_int_def to_double_1200000 fmt_1200000)
  show "human_int float_of_str repr_obj (PInt 1500) = ''1.5k''"
    by (simp add: human_int_def to_double_1500 fmt_1500)
  show "human_int float_of_str repr_obj (PInt 999) = ''999''"
    by (simp add: human_int_def to_double_999 show_trunc_999)
next
  assume "1000000 \<le> q"
  then show "human_int float_of_str repr_obj (PFloat (Fin q)) = fmt_1f (fdiv q 1000000) @ ''M''"
    by (simp add: human_int_def)
next
  assume "1000 \<le> q \<and> q < 1000000"
  then show "human_int float_of_str repr_obj (PFloat (Fin q)) = fmt_1f (fdiv q 1000) @ ''k''"
    by (simp add: human_int_def)
next
  assume "q < 1000"
  then show eq: "human_int float_of_str repr_obj (PFloat (Fin q)) = show_int (trunc q)"
    by (simp add: human_int_def)
  show "set (human_int float_of_str repr_obj (PFloat (Fin q))) \<subseteq> set ''-0123456789''"
    unfolding eq by (rule set_show_int)
qed

theorem human_int_suffixes_witness:
  "(1000000 :: rat) \<le> 2500000
   \<and> human_int float_of_digits repr_dots (PFloat (Fin 2500000)) = ''2.5M''
   \<and> (1000 :: rat) \<le> 1050 \<and> (1050 :: rat) < 1000000
   \<and> human_int float_of_digits repr_dots (PFloat (Fin 1050)) = ''1.1k''
   \<and> (- 7 / 2 :: rat) < 1000
   \<and> human_int float_of_digits repr_dots (PFloat (Fin (- 7 / 2))) = ''-3''"
  using human_int_suffixes [of float_of_digits repr_dots 2500000]
    human_int_suffixes [of float_of_digits repr_dots 1050]
    human_int_suffixes [of float_of_digits repr_dots "- 7 / 2"]
  by (simp add: fmt_2500000 fmt_1050 show_trunc_neg)



section \<open>The claims about the push block\<close>

text \<open>
  C8, as the code has it.  With an empty collection the push block never sends anything
  and never raises; when the button is pressed and both credentials are set it shows the
  warning \<open>Nothing to send yet.\<close>  A request is sent only when the collection is not empty
  (and the button is pressed and the credentials are set).
\<close>

theorem push_block_empty_collection:
  "(df = [] \<longrightarrow> (\<exists>msgs. push_block net repr_obj pressed token chat df push_n = Inr ([], msgs)))
   \<and> (pressed \<and> token \<noteq> [] \<and> chat \<noteq> [] \<and> df = [] \<longrightarrow>
         push_block net repr_obj pressed token chat df push_n
           = Inr ([], [StWarning ''Nothing to send yet.'']))
   \<and> (push_block net repr_obj pressed token chat df push_n = Inr (reqs, msgs) \<and> reqs \<noteq> [] \<longrightarrow>
         df \<noteq> [] \<and> pressed \<and> token \<noteq> [] \<and> chat \<noteq> [])"
proof (intro conjI impI)
  assume "df = []"
  then show "\<exists>msgs. push_block net repr_obj pressed token chat df push_n = Inr ([], msgs)"
    by (simp add: push_block_def)
next
  assume "pressed \<and> token \<noteq> [] \<and> chat \<noteq> [] \<and> df = []"
  then show "push_block net repr_obj pressed token chat df push_n
           = Inr ([], [StWarning ''Nothing to send yet.''])"
    by (simp add: push_block_def)
next
  assume h: "push_block net repr_obj pressed token chat df push_n = Inr (reqs, msgs) \<and> reqs \<noteq> []"
  show "df \<noteq> []" using h by (auto simp: push_block_def split: if_splits)
  show "pressed" using h by (auto simp: push_block_def split: if_splits)
  show "token \<noteq> []" using h by (auto simp: push_block_def split: if_splits)
  show "chat \<noteq> []" using h by (auto simp: push_block_def split: if_splits)
qed

theorem push_block_empty_collection_witness:
  "True \<and> ''token'' \<noteq> [] \<and> ''42'' \<noteq> [] \<and> ([] :: row list) = []
   \<and> push_block net_ok repr_dots True ''token'' ''42'' [] 20
       = Inr ([], [StWarning ''Nothing to send yet.''])"
  using push_block_empty_collection [of "[]" net_ok repr_dots True "''token''" "''42''" 20]
  by simp

text \<open>
  An empty collection with no bot token: the block shows the error about the missing
  credentials, not the warning, against C8 as stated.
\<close>

theorem push_block_empty_without_token:
  "push_block net_ok repr_dots True [] ''42'' [] 20
   = Inr ([], [StError ''Missing TELEGRAM_BOT_TOKEN or TELEGRAM_CHAT_ID''])"
  by (simp add: push_block_def)

end
